theory Spec2Isabelle
  imports Complex_Main
begin

section \<open>Cell values\<close>

text \<open>
  A raster cell is a floating-point number or not-a-number, and so is a weight. The
  finite values are modelled as rationals with exact arithmetic: rounding to machine
  precision and the infinities are left out, not-a-number is kept as a value of its own,
  with the comparison and arithmetic behaviour the language and the array library give
  it (every comparison with it is false, every arithmetic result on it is not-a-number
  again).
\<close>

datatype fval = NaN | Val rat

fun isnan :: "fval \<Rightarrow> bool" where
  "isnan NaN = True"
| "isnan (Val x) = False"

fun f_lt :: "fval \<Rightarrow> rat \<Rightarrow> bool" where
  "f_lt NaN c = False"
| "f_lt (Val x) c = (x < c)"

fun f_le :: "fval \<Rightarrow> rat \<Rightarrow> bool" where
  "f_le NaN c = False"
| "f_le (Val x) c = (x \<le> c)"

fun f_eq :: "fval \<Rightarrow> rat \<Rightarrow> bool" where
  "f_eq NaN c = False"
| "f_eq (Val x) c = (x = c)"

fun f_equal :: "fval \<Rightarrow> fval \<Rightarrow> bool" where
  "f_equal (Val x) (Val y) = (x = y)"
| "f_equal a b = False"

fun f_add :: "fval \<Rightarrow> fval \<Rightarrow> fval" where
  "f_add (Val x) (Val y) = Val (x + y)"
| "f_add a b = NaN"

fun f_gt :: "fval \<Rightarrow> rat \<Rightarrow> bool" where
  "f_gt NaN c = False"
| "f_gt (Val x) c = (c < x)"

fun f_mul :: "fval \<Rightarrow> fval \<Rightarrow> fval" where
  "f_mul (Val x) (Val y) = Val (x * y)"
| "f_mul a b = NaN"

text \<open>Division by a value that is not 0; the callers test for 0 where the source raises.\<close>

fun f_quot :: "fval \<Rightarrow> fval \<Rightarrow> fval" where
  "f_quot (Val x) (Val y) = Val (x / y)"
| "f_quot a b = NaN"

text \<open>The built-in \<open>sum\<close>: additions from the left, starting at 0.\<close>

definition py_sum :: "fval list \<Rightarrow> fval" where
  "py_sum xs = foldl f_add (Val 0) xs"

fun f_scale :: "fval \<Rightarrow> rat \<Rightarrow> fval" where
  "f_scale NaN c = NaN"
| "f_scale (Val x) c = Val (x * c)"

fun f_div :: "fval \<Rightarrow> rat \<Rightarrow> fval" where
  "f_div NaN c = NaN"
| "f_div (Val x) c = Val (x / c)"

text \<open>\<open>np.clip(x, lo, hi)\<close> is \<open>minimum(maximum(x, lo), hi)\<close>; not-a-number stays.\<close>

fun f_clip :: "fval \<Rightarrow> rat \<Rightarrow> rat \<Rightarrow> fval" where
  "f_clip NaN lo hi = NaN"
| "f_clip (Val x) lo hi = Val (min (max x lo) hi)"

text \<open>
  \<open>np.round(x, 1)\<close> multiplies by ten, rounds to the nearest integer with ties going to
  the even neighbour, and divides by ten.
\<close>

definition rint :: "rat \<Rightarrow> int" where
  "rint x =
     (let f = \<lfloor>x\<rfloor>; d = x - of_int f
      in if d < 1 / 2 then f
         else if 1 / 2 < d then f + 1
         else if even f then f else f + 1)"

fun np_round1 :: "fval \<Rightarrow> fval" where
  "np_round1 NaN = NaN"
| "np_round1 (Val x) = Val (of_int (rint (x * 10)) / 10)"

section \<open>Factor normalisation\<close>

text \<open>The nested \<open>np.where\<close> chains of \<open>normalize_raster_values\<close>, one cell at a time.\<close>

definition ph_rule :: "fval \<Rightarrow> fval" where
  "ph_rule x =
     (if f_lt x (9 / 2) then Val (1 / 10)
      else if f_lt x (11 / 2) then Val (3 / 10)
      else if f_lt x 6 then Val (6 / 10)
      else if f_le x (15 / 2) then Val 1
      else if f_le x (17 / 2) then Val (7 / 10)
      else if f_le x 9 then Val (4 / 10)
      else Val (1 / 10))"

definition fertility_rule :: "fval \<Rightarrow> fval" where
  "fertility_rule x =
     (if f_eq x 0 then Val 1
      else if f_le x 4 then Val (8 / 10)
      else if f_le x 8 then Val (6 / 10)
      else if f_le x 12 then Val (4 / 10)
      else if f_le x 36 then Val (2 / 10)
      else Val 0)"

text \<open>
  \<open>np.select\<close> takes the first condition that holds and the default 0 when none does.
\<close>

definition ndvi_rule :: "fval \<Rightarrow> fval" where
  "ndvi_rule x =
     (if f_eq x 1 then Val 10
      else if f_eq x 2 then Val 40
      else if f_eq x 3 then Val 100
      else if f_eq x 4 then Val 80
      else if f_eq x 5 then Val 20
      else Val 0)"

definition optimum5_rule :: "fval \<Rightarrow> fval" where
  "optimum5_rule x = (if f_eq x 5 then Val 1 else Val 0)"

text \<open>
  The lookup tables are applied by a loop over the table's items, each pass replacing
  the cells equal to the key; the grid starts filled with 0.
\<close>

definition apply_mapping :: "(rat \<times> rat) list \<Rightarrow> fval \<Rightarrow> fval" where
  "apply_mapping mapping x =
     fold (\<lambda>(val, norm_val) normalized. if f_eq x val then Val norm_val else normalized)
       mapping (Val 0)"

definition phosphorus_mapping :: "(rat \<times> rat) list" where
  "phosphorus_mapping = [(2, 0), (3, 33 / 100), (4, 66 / 100), (5, 1)]"

definition texture_mapping :: "(rat \<times> rat) list" where
  "texture_mapping = [(0, 0), (1, 2 / 10), (2, 33 / 100), (4, 66 / 100), (5, 1)]"

definition moisture_mapping :: "(rat \<times> rat) list" where
  "moisture_mapping =
     [(0, 0), (3, 5 / 10), (4, 7 / 10), (5, 1), (6, 7 / 10), (7, 5 / 10),
      (8, 3 / 10), (9, 1 / 10), (10, 0)]"

definition soc_rule :: "fval \<Rightarrow> fval" where
  "soc_rule x =
     (if f_lt x 1 then Val (2 / 10)
      else if f_lt x (3 / 2) then Val (4 / 10)
      else if f_lt x 2 then Val (6 / 10)
      else if f_lt x (5 / 2) then Val (8 / 10)
      else Val 1)"

definition sulphur_rule :: "fval \<Rightarrow> fval" where
  "sulphur_rule x =
     (if f_lt x (5 / 2) then Val 0
      else if f_lt x (7 / 2) then Val (33 / 100)
      else if f_lt x (9 / 2) then Val (66 / 100)
      else Val 1)"

text \<open>\<open>normalized[~valid_mask] = np.nan\<close>\<close>

definition preserve_nodata :: "bool list \<Rightarrow> fval list \<Rightarrow> fval list" where
  "preserve_nodata valid_mask normalized =
     map2 (\<lambda>valid n. if valid then n else NaN) valid_mask normalized"

text \<open>
  The branches follow the order of the source. The vegetation-index branch returns the
  selected values at once; every other branch falls through to the last statement.
\<close>

definition normalize_raster_values :: "fval list \<Rightarrow> string \<Rightarrow> fval list" where
  "normalize_raster_values raster_data factor_name =
     (let valid_mask = map (\<lambda>x. \<not> isnan x) raster_data
      in if factor_name = ''ph'' then
           preserve_nodata valid_mask (map ph_rule raster_data)
         else if factor_name = ''fertility'' then
           preserve_nodata valid_mask (map fertility_rule raster_data)
         else if factor_name = ''ndvi'' then
           map ndvi_rule raster_data
         else if factor_name = ''nitrogen'' then
           preserve_nodata valid_mask (map optimum5_rule raster_data)
         else if factor_name = ''potassium'' then
           preserve_nodata valid_mask (map optimum5_rule raster_data)
         else if factor_name = ''phosphorus'' then
           preserve_nodata valid_mask (map (apply_mapping phosphorus_mapping) raster_data)
         else if factor_name = ''soc'' then
           preserve_nodata valid_mask (map soc_rule raster_data)
         else if factor_name = ''texture'' then
           preserve_nodata valid_mask (map (apply_mapping texture_mapping) raster_data)
         else if factor_name = ''moisture'' then
           preserve_nodata valid_mask (map (apply_mapping moisture_mapping) raster_data)
         else if factor_name = ''sulphur'' then
           preserve_nodata valid_mask (map sulphur_rule raster_data)
         else
           preserve_nodata valid_mask (map (\<lambda>x. f_clip x 0 1) raster_data))"

section \<open>Rasters, the data folder and resampling\<close>

type_synonym affine = "rat \<times> rat \<times> rat \<times> rat \<times> rat \<times> rat"

text \<open>The metadata dictionary of an opened raster (\<open>src.meta\<close>).\<close>

record raster_meta =
  m_dtype :: string
  m_nodata :: "fval option"
  m_width :: nat
  m_height :: nat
  m_count :: nat
  m_crs :: string
  m_transform :: affine
  m_compress :: "string option"

record raster =
  meta :: raster_meta
  band1 :: "fval list"

text \<open>
  A file of the data folder is absent, present but not readable as a raster (opening it
  raises), or a raster. The folder maps file names to these.
\<close>

datatype file_entry = Missing | Unreadable | Raster raster

type_synonym folder = "string \<Rightarrow> file_entry"

datatype error = ZeroDivisionError | FileNotFoundError | RasterioIOError | KeyError

datatype resampling = Bilinear | Nearest

text \<open>
  \<open>warp.reproject\<close> belongs to the raster library, not to this program, and is a
  parameter of the model: given the method, the source data with its metadata, the
  target transform and shape, it tells the value that ends up in each cell of the
  destination (row-major index). The destination is allocated with the target shape and
  filled with not-a-number before the call, so its size does not depend on the library.
\<close>

type_synonym reproject =
  "resampling \<Rightarrow> fval list \<Rightarrow> raster_meta \<Rightarrow> affine \<Rightarrow> nat \<times> nat \<Rightarrow> nat \<Rightarrow> fval"

definition warp_reproject ::
  "reproject \<Rightarrow> resampling \<Rightarrow> fval list \<Rightarrow> raster_meta \<Rightarrow> affine \<Rightarrow> nat \<times> nat \<Rightarrow> fval list" where
  "warp_reproject rp method source src_meta dst_transform target_shape =
     map (rp method source src_meta dst_transform target_shape)
       [0 ..< fst target_shape * snd target_shape]"

text \<open>\<open>data[data == src.nodata] = np.nan\<close>, when a sentinel is declared.\<close>

definition replace_nodata :: "fval option \<Rightarrow> fval list \<Rightarrow> fval list" where
  "replace_nodata nodata data =
     (case nodata of
        None \<Rightarrow> data
      | Some nd \<Rightarrow> map (\<lambda>x. if f_equal x nd then NaN else x) data)"

definition factor_files :: "(string \<times> string) list" where
  "factor_files =
     [(''fertility'', ''Fertility.tif''),
      (''moisture'', ''SoilMoisture.tif''),
      (''soc'', ''SOC.tif''),
      (''ndvi'', ''NDVI.tif''),
      (''nitrogen'', ''Nitrogen.tif''),
      (''phosphorus'', ''Phosphorus.tif''),
      (''potassium'', ''Potassium.tif''),
      (''ph'', ''PH.tif''),
      (''texture'', ''SoilTexture.tif''),
      (''sulphur'', ''Sulphur.tif'')]"

text \<open>
  A weight dictionary is kept as the list of its items. Its values are what the caller
  passes, finite numbers or not-a-number (the JSON reader accepts \<open>NaN\<close>).
\<close>

type_synonym weights = "(string \<times> fval) list"

definition default_weights :: weights where
  "default_weights =
     [(''fertility'', Val 30), (''moisture'', Val 25), (''soc'', Val 12), (''ndvi'', Val 12),
      (''nitrogen'', Val 8), (''phosphorus'', Val 7), (''potassium'', Val 6), (''ph'', Val 6),
      (''texture'', Val 3), (''sulphur'', Val 1)]"

text \<open>The weight dictionary whose values are the given finite numbers.\<close>

definition finite_weights :: "(string \<times> rat) list \<Rightarrow> weights" where
  "finite_weights items = map (\<lambda>(k, v). (k, Val v)) items"

section \<open>Loading one factor\<close>

text \<open>
  The grid a factor is normalised from: band 1 with the sentinel replaced, resampled
  bilinearly onto the target grid when one is given.
\<close>

definition aligned_raw ::
  "reproject \<Rightarrow> raster \<Rightarrow> affine option \<Rightarrow> (nat \<times> nat) option \<Rightarrow> fval list" where
  "aligned_raw rp src target_transform target_shape =
     (let data = replace_nodata (m_nodata (meta src)) (band1 src)
      in case target_transform of
           None \<Rightarrow> data
         | Some tt \<Rightarrow>
             (case target_shape of
                None \<Rightarrow> data
              | Some ts \<Rightarrow> warp_reproject rp Bilinear data (meta src) tt ts))"

text \<open>
  An unknown factor name fails at the file-name lookup; an absent file and a file that
  cannot be read both give \<open>None\<close>.
\<close>

definition load_and_normalize_factor ::
  "reproject \<Rightarrow> folder \<Rightarrow> string \<Rightarrow> affine option \<Rightarrow> (nat \<times> nat) option \<Rightarrow>
     error + (fval list \<times> raster_meta) option" where
  "load_and_normalize_factor rp data_folder factor_name target_transform target_shape =
     (case map_of factor_files factor_name of
        None \<Rightarrow> Inl KeyError
      | Some filename \<Rightarrow>
          (case data_folder filename of
             Missing \<Rightarrow> Inr None
           | Unreadable \<Rightarrow> Inr None
           | Raster src \<Rightarrow>
               Inr (Some (normalize_raster_values
                            (aligned_raw rp src target_transform target_shape) factor_name,
                          meta src))))"

section \<open>The suitability computation\<close>

text \<open>
  The comprehension that rescales the weights divides by the total at every item, so it
  raises on the first item when the total is 0 and does nothing on an empty dictionary.
  A total that is not-a-number is different from 100 and is not 0.
\<close>

fun rescale :: "fval \<Rightarrow> weights \<Rightarrow> error + weights" where
  "rescale total_weight [] = Inr []"
| "rescale total_weight ((k, v) # items) =
     (if f_eq total_weight 0 then Inl ZeroDivisionError
      else case rescale total_weight items of
             Inl e \<Rightarrow> Inl e
           | Inr rest \<Rightarrow> Inr ((k, f_scale (f_quot v total_weight) 100) # rest))"

definition normalize_weights :: "weights \<Rightarrow> error + weights" where
  "normalize_weights weights =
     (let total_weight = py_sum (map snd weights)
      in if \<not> f_eq total_weight 100 then rescale total_weight weights else Inr weights)"

text \<open>The first factor file that exists is opened and gives the reference grid.\<close>

fun find_reference :: "folder \<Rightarrow> (string \<times> string) list \<Rightarrow> error + raster option" where
  "find_reference data_folder [] = Inr None"
| "find_reference data_folder ((factor_name, filename) # rest) =
     (case data_folder filename of
        Missing \<Rightarrow> find_reference data_folder rest
      | Unreadable \<Rightarrow> Inl RasterioIOError
      | Raster src \<Rightarrow> Inr (Some src))"

record blend =
  suitability :: "fval list"
  normalized_factors :: "string \<rightharpoonup> fval list"
  total_weights_used :: fval

text \<open>\<open>suitability[valid_mask] += normalized_data[valid_mask] * weight\<close>\<close>

definition accumulate :: "fval list \<Rightarrow> fval list \<Rightarrow> fval \<Rightarrow> fval list" where
  "accumulate suit normalized_data weight =
     map2 (\<lambda>s n. if isnan n then s else f_add s (f_mul n weight)) suit normalized_data"

text \<open>One pass of the loop body for a factor that was loaded.\<close>

definition step_state :: "blend \<Rightarrow> string \<Rightarrow> fval list \<Rightarrow> fval \<Rightarrow> blend" where
  "step_state st factor_name normalized_data weight =
     \<lparr>suitability = accumulate (suitability st) normalized_data weight,
      normalized_factors = (normalized_factors st)(factor_name \<mapsto> normalized_data),
      total_weights_used = f_add (total_weights_used st) weight\<rparr>"

fun process_factors ::
  "reproject \<Rightarrow> folder \<Rightarrow> weights \<Rightarrow> affine \<Rightarrow> nat \<times> nat \<Rightarrow>
     string list \<Rightarrow> blend \<Rightarrow> error + blend" where
  "process_factors rp data_folder weights target_transform target_shape [] st = Inr st"
| "process_factors rp data_folder weights target_transform target_shape (factor_name # rest) st =
     (case map_of weights factor_name of
        None \<Rightarrow> process_factors rp data_folder weights target_transform target_shape rest st
      | Some w \<Rightarrow>
          (case load_and_normalize_factor rp data_folder factor_name
                  (Some target_transform) (Some target_shape) of
             Inl e \<Rightarrow> Inl e
           | Inr None \<Rightarrow>
               process_factors rp data_folder weights target_transform target_shape rest st
           | Inr (Some (normalized_data, m)) \<Rightarrow>
               process_factors rp data_folder weights target_transform target_shape rest
                 (step_state st factor_name normalized_data (f_div w 100))))"

text \<open>
  The raw vegetation-index grid of the penalty pass: band 1 with the sentinel replaced,
  resampled with the nearest neighbour when its shape differs from the target shape.
\<close>

definition ndvi_original_grid :: "reproject \<Rightarrow> raster \<Rightarrow> affine \<Rightarrow> nat \<times> nat \<Rightarrow> fval list" where
  "ndvi_original_grid rp src target_transform target_shape =
     (let ndvi_original = replace_nodata (m_nodata (meta src)) (band1 src)
      in if (m_height (meta src), m_width (meta src)) \<noteq> target_shape
         then warp_reproject rp Nearest ndvi_original (meta src) target_transform target_shape
         else ndvi_original)"

definition penalize :: "fval list \<Rightarrow> fval list \<Rightarrow> fval list" where
  "penalize ndvi_original suit =
     (let suit1 = map2 (\<lambda>n s. if f_eq n 1 \<or> f_eq n 2 then Val (1 / 10) else s) ndvi_original suit
      in map2 (\<lambda>n s. if f_eq n 5 then Val (2 / 10) else s) ndvi_original suit1)"

definition apply_ndvi_penalties ::
  "reproject \<Rightarrow> folder \<Rightarrow> affine \<Rightarrow> nat \<times> nat \<Rightarrow> (string \<rightharpoonup> fval list) \<Rightarrow> fval list \<Rightarrow>
     error + fval list" where
  "apply_ndvi_penalties rp data_folder target_transform target_shape factors suit =
     (if factors ''ndvi'' \<noteq> None then
        (case map_of factor_files ''ndvi'' of
           None \<Rightarrow> Inl KeyError
         | Some filename \<Rightarrow>
             (case data_folder filename of
                Missing \<Rightarrow> Inr suit
              | Unreadable \<Rightarrow> Inl RasterioIOError
              | Raster src \<Rightarrow>
                  Inr (penalize (ndvi_original_grid rp src target_transform target_shape) suit)))
      else Inr suit)"

text \<open>Rounding to one decimal, then the last two steps: times 100, clipped to 0..100.\<close>

definition discretize :: "fval list \<Rightarrow> fval list" where
  "discretize suit = map np_round1 suit"

definition rescale_and_clip :: "fval list \<Rightarrow> fval list" where
  "rescale_and_clip suit = map (\<lambda>c. f_clip (f_scale c 100) 0 100) suit"

definition supplied :: "weights option \<Rightarrow> weights" where
  "supplied weights = (case weights of None \<Rightarrow> default_weights | Some w \<Rightarrow> w)"

definition scale_by_used :: "blend \<Rightarrow> fval list" where
  "scale_by_used st =
     (if f_gt (total_weights_used st) 0
      then map (\<lambda>c. f_quot c (total_weights_used st)) (suitability st)
      else suitability st)"

text \<open>The zero grid of the target shape, no factor stored, no weight used.\<close>

definition initial_blend :: "nat \<times> nat \<Rightarrow> blend" where
  "initial_blend target_shape =
     \<lparr>suitability = replicate (fst target_shape * snd target_shape) (Val 0),
      normalized_factors = Map.empty,
      total_weights_used = Val 0\<rparr>"

text \<open>
  \<open>calculate_suitability\<close> up to and including the rounding step: the composite grid
  before it is brought to the 0..100 scale, with the metadata of the reference raster.
\<close>

definition discretized_composite ::
  "reproject \<Rightarrow> folder \<Rightarrow> weights option \<Rightarrow> error + fval list \<times> raster_meta" where
  "discretized_composite rp data_folder weights_arg =
     (case normalize_weights (supplied weights_arg) of
        Inl e \<Rightarrow> Inl e
      | Inr weights \<Rightarrow>
          (case find_reference data_folder factor_files of
             Inl e \<Rightarrow> Inl e
           | Inr None \<Rightarrow> Inl FileNotFoundError
           | Inr (Some ref) \<Rightarrow>
               (let reference_meta = meta ref;
                    target_transform = m_transform reference_meta;
                    target_shape = (m_height reference_meta, m_width reference_meta);
                    init = initial_blend target_shape
                in case process_factors rp data_folder weights target_transform target_shape
                          (map fst factor_files) init of
                     Inl e \<Rightarrow> Inl e
                   | Inr st \<Rightarrow>
                       (case apply_ndvi_penalties rp data_folder target_transform target_shape
                               (normalized_factors st) (scale_by_used st) of
                          Inl e \<Rightarrow> Inl e
                        | Inr suit \<Rightarrow> Inr (discretize suit, reference_meta)))))"

definition calculate_suitability ::
  "reproject \<Rightarrow> folder \<Rightarrow> weights option \<Rightarrow> error + fval list \<times> raster_meta" where
  "calculate_suitability rp data_folder weights_arg =
     (case discretized_composite rp data_folder weights_arg of
        Inl e \<Rightarrow> Inl e
      | Inr (suit, reference_meta) \<Rightarrow> Inr (rescale_and_clip suit, reference_meta))"

section \<open>Writing the result\<close>

text \<open>
  \<open>os.path.dirname\<close>: the path up to its last slash, without trailing slashes unless it
  consists of slashes only; empty when the path has no slash.
\<close>

definition dirname :: "string \<Rightarrow> string" where
  "dirname path =
     (let head = rev (dropWhile (\<lambda>c. c \<noteq> CHR ''/'') (rev path))
      in if head \<noteq> [] \<and> \<not> list_all (\<lambda>c. c = CHR ''/'') head
         then rev (dropWhile (\<lambda>c. c = CHR ''/'') (rev head))
         else head)"

text \<open>
  The files written so far are a map from paths to rasters. \<open>os.makedirs\<close> raises on
  the empty directory name, before anything is written; other failures of the file
  system are not modelled.
\<close>

definition save_suitability_raster ::
  "fval list \<Rightarrow> raster_meta \<Rightarrow> string \<Rightarrow> (string \<rightharpoonup> raster) \<Rightarrow> error + (string \<rightharpoonup> raster)" where
  "save_suitability_raster suitability_data m output_path disk =
     (let m' = m\<lparr>m_dtype := ''float32'', m_count := 1, m_compress := Some ''lzw'',
                 m_nodata := Some (Val (- 9999))\<rparr>;
          output_data = map (\<lambda>c. if isnan c then Val (- 9999) else c) suitability_data
      in if dirname output_path = [] then Inl FileNotFoundError
         else Inr (disk(output_path \<mapsto> \<lparr>meta = m', band1 = output_data\<rparr>)))"

text \<open>
  The body of \<open>main\<close> after the arguments are parsed: compute, then save; any exception
  is caught and gives exit code 1.
\<close>

definition main_run ::
  "reproject \<Rightarrow> folder \<Rightarrow> weights option \<Rightarrow> string \<Rightarrow> (string \<rightharpoonup> raster) \<Rightarrow>
     nat \<times> (string \<rightharpoonup> raster)" where
  "main_run rp data_folder weights output disk =
     (case calculate_suitability rp data_folder weights of
        Inl e \<Rightarrow> (1, disk)
      | Inr (suit, m) \<Rightarrow>
          (case save_suitability_raster suit m output disk of
             Inl e \<Rightarrow> (1, disk)
           | Inr disk' \<Rightarrow> (0, disk')))"

section \<open>Concrete data folders\<close>

text \<open>
  Resampling a raster onto its own grid, for concrete folders whose rasters all share
  one grid. The nearest neighbour of a cell is the cell. Bilinear sampling reads the cell
  and its right, lower and diagonal neighbours, where they exist, with the weights 1, 0,
  0 and 0; the result is the cell itself, unless one of the four is not-a-number, which
  the weight 0 does not cancel.
\<close>

definition own_grid :: reproject where
  "own_grid method source src_meta dst_transform target_shape i =
     (let w = m_width src_meta; h = m_height src_meta;
          r = i div w; c = i mod w;
          window = filter (\<lambda>(y, x). y < h \<and> x < w)
                     [(r, c), (r, c + 1), (r + 1, c), (r + 1, c + 1)];
          samples = map (\<lambda>(y, x). source ! (y * w + x)) window
      in if i < h * w \<and> length source = h * w then
           (case method of
              Nearest \<Rightarrow> source ! i
            | Bilinear \<Rightarrow> if list_ex isnan samples then NaN else source ! i)
         else NaN)"

definition mk_raster :: "nat \<Rightarrow> nat \<Rightarrow> fval option \<Rightarrow> fval list \<Rightarrow> raster" where
  "mk_raster h w nodata cells =
     \<lparr>meta = \<lparr>m_dtype = ''float32'', m_nodata = nodata, m_width = w, m_height = h,
              m_count = 1, m_crs = ''EPSG:4326'', m_transform = (1, 0, 0, 0, - 1, 0),
              m_compress = None\<rparr>,
      band1 = cells\<rparr>"

text \<open>A folder with no file, and a folder with one file.\<close>

definition empty_folder :: folder where
  "empty_folder filename = Missing"

definition only_file :: "string \<Rightarrow> raster \<Rightarrow> folder" where
  "only_file name r filename = (if filename = name then Raster r else Missing)"

text \<open>
  pH rasters of one row and two cells, with the sentinel -9999 declared: 7.0 in both
  cells; the sentinel in the first cell; the sentinel in the second cell.
\<close>

definition ph_sevens :: raster where
  "ph_sevens = mk_raster 1 2 (Some (Val (- 9999))) [Val 7, Val 7]"

definition ph_gap_first :: raster where
  "ph_gap_first = mk_raster 1 2 (Some (Val (- 9999))) [Val (- 9999), Val 7]"

definition ph_gap_last :: raster where
  "ph_gap_last = mk_raster 1 2 (Some (Val (- 9999))) [Val 7, Val (- 9999)]"

text \<open>A fertility raster of zeros and a vegetation-index raster of ones.\<close>

definition fertility_zeros :: raster where
  "fertility_zeros = mk_raster 1 2 None [Val 0, Val 0]"

definition ndvi_ones :: raster where
  "ndvi_ones = mk_raster 1 2 None [Val 1, Val 1]"

definition fertility_ndvi_folder :: folder where
  "fertility_ndvi_folder filename =
     (if filename = ''Fertility.tif'' then Raster fertility_zeros
      else if filename = ''NDVI.tif'' then Raster ndvi_ones
      else Missing)"

text \<open>A vegetation-index raster of two rows and two columns without missing cells.\<close>

definition ndvi_classes :: raster where
  "ndvi_classes = mk_raster 2 2 None [Val 3, Val 1, Val 5, Val 4]"

section \<open>Properties of the normaliser\<close>

lemma length_preserve_nodata:
  "length (preserve_nodata (map (\<lambda>x. \<not> isnan x) xs) (map f xs)) = length xs"
  by (simp add: preserve_nodata_def)

lemma nth_preserve_nodata:
  "i < length xs \<Longrightarrow>
   preserve_nodata (map (\<lambda>x. \<not> isnan x) xs) (map f xs) ! i =
     (if isnan (xs ! i) then NaN else f (xs ! i))"
  by (simp add: preserve_nodata_def)

lemma length_normalize_raster_values:
  "length (normalize_raster_values xs name) = length xs"
  by (simp add: normalize_raster_values_def Let_def length_preserve_nodata)

lemma normalize_keeps_missing:
  "name \<noteq> ''ndvi'' \<Longrightarrow> i < length xs \<Longrightarrow> xs ! i = NaN \<Longrightarrow>
   normalize_raster_values xs name ! i = NaN"
  by (simp add: normalize_raster_values_def Let_def nth_preserve_nodata)

text \<open>
  Claim C2: every rule keeps a missing cell missing. The vegetation-index branch
  returns before the statement that restores the missing cells, so a missing cell of a
  vegetation-index grid comes out as the number 0.
\<close>

theorem ndvi_missing_cell_becomes_zero:
  "normalize_raster_values [NaN, Val 3] ''ndvi'' = [Val 0, Val 100]"
  by (simp add: normalize_raster_values_def ndvi_rule_def)

section \<open>Weight renormalisation\<close>

lemma foldl_f_add_finite: "foldl f_add (Val a) (map Val xs) = Val (a + sum_list xs)"
  by (induction xs arbitrary: a) (simp_all add: add.assoc)

lemma values_finite_weights: "map snd (finite_weights items) = map Val (map snd items)"
  by (simp add: finite_weights_def split_def)

lemma keys_finite_weights: "map fst (finite_weights items) = map fst items"
  by (simp add: finite_weights_def split_def)

lemma py_sum_finite: "py_sum (map snd (finite_weights items)) = Val (sum_list (map snd items))"
  by (simp only: py_sum_def values_finite_weights foldl_f_add_finite add_0)

lemma map_of_finite_weights: "map_of (finite_weights items) k = map_option Val (map_of items k)"
  by (induction items) (auto simp: finite_weights_def)

lemma rescale_finite:
  "t \<noteq> 0 \<Longrightarrow>
   rescale (Val t) (finite_weights items) =
     Inr (finite_weights (map (\<lambda>(k, v). (k, v / t * 100)) items))"
  by (induction items) (auto simp: finite_weights_def)

lemma rescale_zero: "ws \<noteq> [] \<Longrightarrow> rescale (Val 0) ws = Inl ZeroDivisionError"
  by (cases ws) auto

lemma rescale_returns: "\<not> f_eq t 0 \<Longrightarrow> \<exists>ws'. rescale t ws = Inr ws'"
  by (induction ws) auto

lemma sum_rescaled:
  "sum_list (map snd (map (\<lambda>(k, v). (k, v / t * 100)) items)) =
     sum_list (map snd items) / t * (100::rat)"
  by (induction items) (auto simp: add_divide_distrib distrib_right)

lemma keys_rescale: "rescale t ws = Inr ws' \<Longrightarrow> map fst ws' = map fst ws"
  by (induction ws arbitrary: ws') (auto split: if_splits sum.splits)

lemma keys_normalize_weights: "normalize_weights ws = Inr ws' \<Longrightarrow> map fst ws' = map fst ws"
  by (auto simp: normalize_weights_def Let_def keys_rescale split: if_splits)

lemma map_of_normalized_weights:
  "normalize_weights ws = Inr ws' \<Longrightarrow> (map_of ws' k = None) = (k \<notin> fst ` set ws)"
  using keys_normalize_weights [of ws ws'] by (metis map_of_eq_None_iff set_map)

lemma normalize_weights_finite:
  assumes "normalize_weights (finite_weights items) = Inr ws'"
  shows "\<exists>items'. ws' = finite_weights items'"
proof (cases "sum_list (map snd items) = 100")
  case True
  with assms show ?thesis
    by (auto simp: normalize_weights_def py_sum_finite)
next
  case False
  note not100 = this
  show ?thesis
  proof (cases "sum_list (map snd items) = 0")
    case True
    with assms have "rescale (Val 0) (finite_weights items) = Inr ws'"
      by (simp add: normalize_weights_def py_sum_finite)
    then have "items = []" "ws' = []"
      using rescale_zero [of "finite_weights items"]
      by (cases items; auto simp: finite_weights_def)+
    then show ?thesis by (auto simp: finite_weights_def)
  next
    case False
    with assms not100 show ?thesis
      by (auto simp: normalize_weights_def py_sum_finite rescale_finite)
  qed
qed

text \<open>
  Claim C6: when the supplied weights are finite numbers with a positive total, the
  weights used by \<open>calculate_suitability\<close> are the supplied ones, each divided by the
  total and multiplied by 100; they sum to 100 (exactly, the arithmetic being rational),
  and a weight set that already sums to 100 is used as it is.
\<close>

theorem weights_rescaled_to_100:
  assumes "supplied w = finite_weights items"
    and "0 < sum_list (map snd items)"
  shows "\<exists>used. normalize_weights (supplied w) = Inr (finite_weights used)
           \<and> used = map (\<lambda>(k, v). (k, v / sum_list (map snd items) * 100)) items
           \<and> sum_list (map snd used) = 100
           \<and> py_sum (map snd (finite_weights used)) = Val 100
           \<and> (sum_list (map snd items) = 100 \<longrightarrow> used = items)"
proof -
  let ?t = "sum_list (map snd items)"
  let ?r = "map (\<lambda>(k, v). (k, v / ?t * 100)) items"
  have nz: "?t \<noteq> 0" using assms(2) by simp
  have same: "?r = items" if "?t = 100"
    using that by (simp add: map_idI split_def)
  have "normalize_weights (finite_weights items) = Inr (finite_weights ?r)"
  proof (cases "?t = 100")
    case True
    then show ?thesis using same by (simp add: normalize_weights_def py_sum_finite)
  next
    case False
    then show ?thesis using nz by (simp add: normalize_weights_def py_sum_finite rescale_finite)
  qed
  moreover have "sum_list (map snd ?r) = 100"
    using nz by (simp only: sum_rescaled) simp
  ultimately show ?thesis using same by (simp add: assms(1) py_sum_finite)
qed

theorem weights_rescaled_to_100_witness:
  "normalize_weights (supplied None) =
     Inr (finite_weights
       [(''fertility'', 30 / 110 * 100), (''moisture'', 25 / 110 * 100), (''soc'', 12 / 110 * 100),
        (''ndvi'', 12 / 110 * 100), (''nitrogen'', 8 / 110 * 100), (''phosphorus'', 7 / 110 * 100),
        (''potassium'', 6 / 110 * 100), (''ph'', 6 / 110 * 100), (''texture'', 3 / 110 * 100),
        (''sulphur'', 1 / 110 * 100)])
   \<and> normalize_weights (supplied (Some [(''ph'', Val 100)])) = Inr [(''ph'', Val 100)]"
proof -
  have a: "supplied None = finite_weights
      [(''fertility'', 30), (''moisture'', 25), (''soc'', 12), (''ndvi'', 12), (''nitrogen'', 8),
       (''phosphorus'', 7), (''potassium'', 6), (''ph'', 6), (''texture'', 3), (''sulphur'', 1)]"
    by (simp add: supplied_def default_weights_def finite_weights_def)
  have first: "normalize_weights (supplied None) =
     Inr (finite_weights
       [(''fertility'', 30 / 110 * 100), (''moisture'', 25 / 110 * 100), (''soc'', 12 / 110 * 100),
        (''ndvi'', 12 / 110 * 100), (''nitrogen'', 8 / 110 * 100), (''phosphorus'', 7 / 110 * 100),
        (''potassium'', 6 / 110 * 100), (''ph'', 6 / 110 * 100), (''texture'', 3 / 110 * 100),
        (''sulphur'', 1 / 110 * 100)])"
    using weights_rescaled_to_100 [OF a] by simp
  have b: "supplied (Some [(''ph'', Val 100)]) = finite_weights [(''ph'', 100)]"
    by (simp add: supplied_def finite_weights_def)
  have "normalize_weights (supplied (Some [(''ph'', Val 100)])) = Inr [(''ph'', Val 100)]"
    using weights_rescaled_to_100 [OF b] by (simp add: finite_weights_def)
  with first show ?thesis by simp
qed

text \<open>
  Claim C10: a non-empty weight dictionary whose values sum to 0 makes
  \<open>calculate_suitability\<close> fail with a division by zero in the renormalisation. The
  result is the same for every data folder and every resampler, unreadable files
  included: the failure comes before any file is looked at.
\<close>

theorem zero_total_divides_by_zero:
  assumes "ws \<noteq> []" and "py_sum (map snd ws) = Val 0"
  shows "calculate_suitability rp data_folder (Some ws) = Inl ZeroDivisionError"
  using assms
  by (simp add: calculate_suitability_def discretized_composite_def supplied_def
      normalize_weights_def rescale_zero)

theorem zero_total_divides_by_zero_witness:
  "calculate_suitability own_grid (\<lambda>filename. Unreadable)
     (Some [(''fertility'', Val 5), (''ph'', Val (- 5))]) = Inl ZeroDivisionError"
  by (rule zero_total_divides_by_zero) (simp_all add: py_sum_def)

section \<open>Grid sizes\<close>

lemma length_warp_reproject [simp]:
  "length (warp_reproject rp method source m tt ts) = fst ts * snd ts"
  by (simp add: warp_reproject_def)

lemma length_aligned_raw [simp]:
  "length (aligned_raw rp src (Some tt) (Some ts)) = fst ts * snd ts"
  by (simp add: aligned_raw_def)

section \<open>The loop over the factors\<close>

lemma load_known:
  "map_of factor_files name = Some filename \<Longrightarrow>
   load_and_normalize_factor rp data_folder name (Some tt) (Some ts) =
     Inr (case data_folder filename of
            Raster src \<Rightarrow>
              Some (normalize_raster_values (aligned_raw rp src (Some tt) (Some ts)) name, meta src)
          | _ \<Rightarrow> None)"
  by (simp add: load_and_normalize_factor_def split: file_entry.splits)

lemma process_factors_returns:
  "\<forall>name \<in> set names. map_of factor_files name \<noteq> None \<Longrightarrow>
   \<exists>st'. process_factors rp data_folder ws tt ts names st = Inr st'"
proof (induction names arbitrary: st)
  case Nil
  then show ?case by simp
next
  case (Cons name names)
  then obtain filename where f: "map_of factor_files name = Some filename" by auto
  from Cons have rest: "\<And>s. \<exists>st'. process_factors rp data_folder ws tt ts names s = Inr st'"
    by simp
  show ?case
    using rest by (simp add: load_known [OF f] Let_def split: option.splits file_entry.splits)
qed

lemma process_factors_invariant:
  assumes "process_factors rp data_folder ws tt ts names st = Inr st'"
    and "P st"
    and step: "\<And>name w filename src s.
            name \<in> set names \<Longrightarrow> map_of ws name = Some w \<Longrightarrow>
            map_of factor_files name = Some filename \<Longrightarrow> data_folder filename = Raster src \<Longrightarrow>
            P s \<Longrightarrow>
            P (step_state s name
                 (normalize_raster_values (aligned_raw rp src (Some tt) (Some ts)) name) (f_div w 100))"
  shows "P st'"
  using assms
proof (induction names arbitrary: st)
  case Nil
  then show ?case by simp
next
  case (Cons name names)
  have step': "\<And>name w filename src s.
            name \<in> set names \<Longrightarrow> map_of ws name = Some w \<Longrightarrow>
            map_of factor_files name = Some filename \<Longrightarrow> data_folder filename = Raster src \<Longrightarrow>
            P s \<Longrightarrow>
            P (step_state s name
                 (normalize_raster_values (aligned_raw rp src (Some tt) (Some ts)) name) (f_div w 100))"
    using Cons.prems(3) by simp
  show ?case
  proof (cases "map_of ws name")
    case None
    with Cons.prems(1) have "process_factors rp data_folder ws tt ts names st = Inr st'" by simp
    from Cons.IH [OF this Cons.prems(2) step'] show ?thesis .
  next
    case (Some w)
    show ?thesis
    proof (cases "map_of factor_files name")
      case None
      with Some Cons.prems(1) show ?thesis
        by (simp add: load_and_normalize_factor_def)
    next
      case (Some filename)
      note f = this
      show ?thesis
      proof (cases "\<exists>src. data_folder filename = Raster src")
        case False
        with \<open>map_of ws name = Some w\<close> Cons.prems(1)
        have "process_factors rp data_folder ws tt ts names st = Inr st'"
          by (simp add: load_known [OF f] split: file_entry.splits)
        from Cons.IH [OF this Cons.prems(2) step'] show ?thesis .
      next
        case True
        then obtain src where r: "data_folder filename = Raster src" by blast
        let ?n = "normalize_raster_values (aligned_raw rp src (Some tt) (Some ts)) name"
        from \<open>map_of ws name = Some w\<close> Cons.prems(1) r
        have run: "process_factors rp data_folder ws tt ts names (step_state st name ?n (f_div w 100)) = Inr st'"
          by (simp add: load_known [OF f])
        have "P (step_state st name ?n (f_div w 100))"
          using Cons.prems(3) [of name w filename src st] \<open>map_of ws name = Some w\<close> f r Cons.prems(2)
          by simp
        from Cons.IH [OF run this step'] show ?thesis .
      qed
    qed
  qed
qed


section \<open>Rounding, penalties and accumulation, cell by cell\<close>

lemma rint_of_int [simp]: "rint (of_int k) = k"
  by (simp add: rint_def)

lemma np_round1_tenth [simp]: "np_round1 (Val (1 / 10)) = Val (1 / 10)"
  using rint_of_int [of 1] by simp

lemma np_round1_fifth [simp]: "np_round1 (Val (2 / 10)) = Val (2 / 10)"
  using rint_of_int [of 2] by simp

lemma np_round1_zero [simp]: "np_round1 (Val 0) = Val 0"
  using rint_of_int [of 0] by simp

lemma np_round1_one [simp]: "np_round1 (Val 1) = Val 1"
  using rint_of_int [of 10] by simp

lemma length_penalize [simp]: "length (penalize nd s) = min (length nd) (length s)"
  by (simp add: penalize_def Let_def)

lemma nth_penalize:
  "i < length nd \<Longrightarrow> i < length s \<Longrightarrow>
   penalize nd s ! i =
     (if f_eq (nd ! i) 5 then Val (2 / 10)
      else if f_eq (nd ! i) 1 \<or> f_eq (nd ! i) 2 then Val (1 / 10)
      else s ! i)"
  by (simp add: penalize_def Let_def)

lemma length_accumulate [simp]:
  "length (accumulate s n w) = min (length s) (length n)"
  by (simp add: accumulate_def)

lemma nth_accumulate:
  "i < length s \<Longrightarrow> i < length n \<Longrightarrow>
   accumulate s n w ! i = (if isnan (n ! i) then s ! i else f_add (s ! i) (f_mul (n ! i) w))"
  by (simp add: accumulate_def)

section \<open>The phases of a successful run\<close>

lemma discretized_composite_Inr:
  assumes "discretized_composite rp data_folder w = Inr (d, m)"
  obtains ws ref st suit where
    "normalize_weights (supplied w) = Inr ws"
    "find_reference data_folder factor_files = Inr (Some ref)"
    "m = meta ref"
    "process_factors rp data_folder ws (m_transform m) (m_height m, m_width m)
       (map fst factor_files) (initial_blend (m_height m, m_width m)) = Inr st"
    "apply_ndvi_penalties rp data_folder (m_transform m) (m_height m, m_width m)
       (normalized_factors st) (scale_by_used st) = Inr suit"
    "d = discretize suit"
  using assms
  by (auto simp: discretized_composite_def Let_def split: sum.splits option.splits)

lemma calculate_suitability_Inr:
  assumes "calculate_suitability rp data_folder w = Inr (out, m)"
  obtains d where "discretized_composite rp data_folder w = Inr (d, m)"
    "out = rescale_and_clip d"
  using assms
  by (auto simp: calculate_suitability_def split: sum.splits prod.splits)


lemma length_normalized_aligned [simp]:
  "length (normalize_raster_values (aligned_raw rp src (Some tt) (Some ts)) name) = fst ts * snd ts"
  by (simp add: length_normalize_raster_values)

lemma process_factors_length:
  assumes "process_factors rp data_folder ws tt ts names st = Inr st'"
    and "length (suitability st) = fst ts * snd ts"
  shows "length (suitability st') = fst ts * snd ts"
  by (rule process_factors_invariant
        [OF assms(1), where P = "\<lambda>s. length (suitability s) = fst ts * snd ts"])
     (simp_all add: assms(2) step_state_def)

lemma process_factors_loaded_readable:
  assumes "process_factors rp data_folder ws tt ts names st = Inr st'"
    and "\<forall>n. normalized_factors st n \<noteq> None \<longrightarrow>
           (\<exists>filename src. map_of factor_files n = Some filename \<and> data_folder filename = Raster src)"
  shows "\<forall>n. normalized_factors st' n \<noteq> None \<longrightarrow>
           (\<exists>filename src. map_of factor_files n = Some filename \<and> data_folder filename = Raster src)"
proof (rule process_factors_invariant
        [OF assms(1), where P = "\<lambda>s. \<forall>n. normalized_factors s n \<noteq> None \<longrightarrow>
           (\<exists>filename src. map_of factor_files n = Some filename \<and> data_folder filename = Raster src)"])
  show "\<forall>n. normalized_factors st n \<noteq> None \<longrightarrow>
          (\<exists>filename src. map_of factor_files n = Some filename \<and> data_folder filename = Raster src)"
    by (rule assms(2))
next
  fix name w filename src and s :: blend
  assume "map_of factor_files name = Some filename" "data_folder filename = Raster src"
    and "\<forall>n. normalized_factors s n \<noteq> None \<longrightarrow>
           (\<exists>filename src. map_of factor_files n = Some filename \<and> data_folder filename = Raster src)"
  then show "\<forall>n. normalized_factors (step_state s name
        (normalize_raster_values (aligned_raw rp src (Some tt) (Some ts)) name) (f_div w 100)) n \<noteq> None \<longrightarrow>
      (\<exists>filename src. map_of factor_files n = Some filename \<and> data_folder filename = Raster src)"
    by (auto simp: step_state_def)
qed

lemma process_factors_keeps:
  assumes "process_factors rp data_folder ws tt ts names st = Inr st'"
    and "normalized_factors st n \<noteq> None"
  shows "normalized_factors st' n \<noteq> None"
  by (rule process_factors_invariant
        [OF assms(1), where P = "\<lambda>s. normalized_factors s n \<noteq> None"])
     (simp_all add: assms(2) step_state_def)

lemma process_factors_stores:
  "process_factors rp data_folder ws tt ts names st = Inr st' \<Longrightarrow>
   n \<in> set names \<Longrightarrow> map_of ws n = Some w \<Longrightarrow>
   map_of factor_files n = Some filename \<Longrightarrow> data_folder filename = Raster src \<Longrightarrow>
   normalized_factors st' n \<noteq> None"
proof (induction names arbitrary: st)
  case Nil
  then show ?case by simp
next
  case (Cons name names)
  show ?case
  proof (cases "name = n")
    case True
    let ?s = "step_state st n
       (normalize_raster_values (aligned_raw rp src (Some tt) (Some ts)) n) (f_div w 100)"
    from True Cons.prems
    have "process_factors rp data_folder ws tt ts names ?s = Inr st'"
      by (simp add: load_known)
    moreover have "normalized_factors ?s n \<noteq> None"
      by (simp add: step_state_def)
    ultimately show ?thesis by (rule process_factors_keeps)
  next
    case False
    with Cons.prems(2) have mem: "n \<in> set names" by simp
    from Cons.prems(1) obtain s where "process_factors rp data_folder ws tt ts names s = Inr st'"
      by (auto split: option.splits sum.splits)
    from Cons.IH [OF this mem Cons.prems(3-5)] show ?thesis .
  qed
qed

lemma initial_blend_simps [simp]:
  "length (suitability (initial_blend ts)) = fst ts * snd ts"
  "list_all (\<lambda>c. \<not> isnan c) (suitability (initial_blend ts))"
  "normalized_factors (initial_blend ts) n = None"
  "total_weights_used (initial_blend ts) = Val 0"
  by (simp_all add: initial_blend_def list_all_length)

lemma length_scale_by_used [simp]: "length (scale_by_used st) = length (suitability st)"
  by (simp add: scale_by_used_def)

lemma penalize_no_nan:
  assumes "list_all (\<lambda>c. \<not> isnan c) s"
  shows "list_all (\<lambda>c. \<not> isnan c) (penalize nd s)"
  using assms by (simp add: list_all_length nth_penalize)

lemma ndvi_file [simp]: "map_of factor_files ''ndvi'' = Some ''NDVI.tif''"
  by (simp add: factor_files_def)

lemma apply_ndvi_penalties_no_nan:
  assumes "apply_ndvi_penalties rp data_folder tt ts factors s = Inr s'"
    and "list_all (\<lambda>c. \<not> isnan c) s"
  shows "list_all (\<lambda>c. \<not> isnan c) s'"
  using assms
  by (auto simp: apply_ndvi_penalties_def penalize_no_nan split: if_splits file_entry.splits)

lemma finalize_range:
  assumes "\<not> isnan c"
  shows "\<exists>v. f_clip (f_scale (np_round1 c) 100) 0 100 = Val v \<and> 0 \<le> v \<and> v \<le> 100"
  using assms by (cases c) simp_all

end
